theory Spec2Isabelle
  imports Complex_Main
begin

section \<open>JavaScript values\<close>

text \<open>
  A parsed JSON document. \<open>JNum\<close> holds the numeric value after parsing; \<open>JObj\<close>
  holds the own properties of the object, one entry per key. A JavaScript value that may be
  \<open>undefined\<close> is a \<open>json option\<close>, with \<open>None\<close> for \<open>undefined\<close>.
\<close>

datatype json =
    JNull
  | JBool bool
  | JNum rat
  | JStr string
  | JArr "json list"
  | JObj "(string \<times> json) list"

datatype js_error =
    Error string     \<comment> \<open>\<open>new Error(message)\<close>\<close>
  | TypeError        \<comment> \<open>raised by the engine: property of null, call of a non-function, failed fetch\<close>
  | SyntaxError      \<comment> \<open>raised by \<open>JSON.parse\<close> and \<open>Response.json\<close> on malformed text\<close>

text \<open>Truthiness, as \<open>!x\<close>, \<open>x || y\<close> and \<open>x ? a : b\<close> read it.\<close>

fun truthy :: "json option \<Rightarrow> bool" where
  "truthy None = False"
| "truthy (Some JNull) = False"
| "truthy (Some (JBool b)) = b"
| "truthy (Some (JNum n)) = (n \<noteq> 0)"
| "truthy (Some (JStr s)) = (s \<noteq> [])"
| "truthy (Some (JArr xs)) = True"
| "truthy (Some (JObj kvs)) = True"

fun join :: "string \<Rightarrow> string list \<Rightarrow> string" where
  "join sep [] = []"
| "join sep [s] = s"
| "join sep (s # t # ss) = s @ sep @ join sep (t # ss)"

text \<open>
  String coercion (template literals, the argument of \<open>new Error\<close>). The decimal form of a
  number is the parameter \<open>ns\<close>; an array joins its elements with commas, a null element
  giving the empty string; a plain object gives \<open>[object Object]\<close> (an own property named
  \<open>toString\<close>, with which the coercion raises, is not modelled).
\<close>

fun ToString :: "(rat \<Rightarrow> string) \<Rightarrow> json \<Rightarrow> string" where
  "ToString ns JNull = ''null''"
| "ToString ns (JBool b) = (if b then ''true'' else ''false'')"
| "ToString ns (JNum n) = ns n"
| "ToString ns (JStr s) = s"
| "ToString ns (JArr xs) = join '','' (map (\<lambda>x. case x of JNull \<Rightarrow> [] | _ \<Rightarrow> ToString ns x) xs)"
| "ToString ns (JObj kvs) = ''[object Object]''"

text \<open>
  Property read \<open>v.k\<close> for a key that is not a built-in property of strings and arrays:
  reading a property of \<open>null\<close> raises, an object gives its own property or
  \<open>undefined\<close>, every other value gives \<open>undefined\<close>.
\<close>

fun get_prop :: "json \<Rightarrow> string \<Rightarrow> js_error + json option" where
  "get_prop JNull k = Inl TypeError"
| "get_prop (JObj kvs) k = Inr (map_of kvs k)"
| "get_prop v k = Inr None"

section \<open>The API client (frontend/src/api.js)\<close>

record opts =
  http_method :: "string option"
  body :: "json option"    \<comment> \<open>the value whose \<open>JSON.stringify\<close> text is sent\<close>

record request =
  url :: string
  headers :: "(string \<times> string) list"
  req_opts :: opts

record response =
  ok :: bool
  statusText :: string
  json_result :: "js_error + json"   \<comment> \<open>what \<open>r.json()\<close> settles to\<close>

definition BASE :: string where
  "BASE = ''/api''"

definition no_opts :: opts where
  "no_opts = \<lparr>http_method = None, body = None\<rparr>"

definition mk_request :: "string \<Rightarrow> opts \<Rightarrow> request" where
  "mk_request path os =
     \<lparr>url = BASE @ path, headers = [(''Content-Type'', ''application/json'')], req_opts = os\<rparr>"

text \<open>
  \<open>req\<close>: the network is the parameter \<open>fetch\<close>, which gives a rejection or a response
  for a request. A rejected promise is \<open>Inl\<close>, a fulfilled one \<open>Inr\<close>.
\<close>

definition req ::
  "(rat \<Rightarrow> string) \<Rightarrow> (request \<Rightarrow> js_error + response) \<Rightarrow> string \<Rightarrow> opts \<Rightarrow> js_error + json"
where
  "req ns fetch path os =
     (case fetch (mk_request path os) of
        Inl e \<Rightarrow> Inl e
      | Inr r \<Rightarrow>
          if \<not> ok r then
            (let err = (case json_result r of
                          Inl e \<Rightarrow> JObj [(''detail'', JStr (statusText r))]
                        | Inr j \<Rightarrow> j)
             in case get_prop err ''detail'' of
                  Inl e \<Rightarrow> Inl e
                | Inr d \<Rightarrow>
                    (case d of
                       None \<Rightarrow> Inl (Error (statusText r))
                     | Some v \<Rightarrow>
                         if truthy (Some v) then Inl (Error (ToString ns v))
                         else Inl (Error (statusText r))))
          else json_result r)"





type_synonym api_method = "json option list \<Rightarrow> string \<times> opts"


text \<open>
  A method call \<open>obj.name(args)\<close>: calling a property the object does not have raises
  \<open>TypeError\<close> at the call (outer \<open>Inl\<close>); otherwise the call returns the promise of
  \<open>req\<close> (inner sum).
\<close>

definition call_api ::
  "(rat \<Rightarrow> string) \<Rightarrow> (request \<Rightarrow> js_error + response) \<Rightarrow> (string \<times> api_method) list
     \<Rightarrow> string \<Rightarrow> json option list \<Rightarrow> js_error + (js_error + json)"
where
  "call_api ns fetch obj name args =
     (case map_of obj name of
        None \<Rightarrow> Inl TypeError
      | Some m \<Rightarrow> (case m args of (path, os) \<Rightarrow> Inr (req ns fetch path os)))"

section \<open>The dashboard (kalshi-trader/frontend/src/App.jsx)\<close>


record app_state =
  tab :: string
  portfolio :: json
  history :: json
  decisions :: json
  stats :: json
  strategies :: json
  marketState :: json
  apiStats :: json
  loading :: bool
  lastUpdate :: "int option"
  connected :: bool



text \<open>Sequencing: the first failure ends the computation.\<close>

definition and_then :: "'e + 'a \<Rightarrow> ('a \<Rightarrow> 'e + 'b) \<Rightarrow> 'e + 'b" where
  "and_then m f = (case m of Inl e \<Rightarrow> Inl e | Inr x \<Rightarrow> f x)"





text \<open>
  The portfolio figures of \<open>App\<close> (lines 395 to 398), computed from the \<open>portfolio\<close>
  of the state (\<open>pf\<close>). Numbers are IEEE doubles in the code, and no property of their arithmetic
  is assumed here: the arithmetic is a parameter. \<open>js_num x\<close> is the double of the numeric
  value \<open>x\<close> (of a literal, or of a parsed JSON number), \<open>js_coerce\<close> the conversion to a
  number of a value that is not one (it raises on no JSON value), \<open>js_div\<close> and
  \<open>js_add\<close> the operators \<open>/\<close> and \<open>+\<close> on doubles.
\<close>

record 'n arith =
  js_num :: "rat \<Rightarrow> 'n"
  js_coerce :: "json \<Rightarrow> 'n"
  js_div :: "'n \<Rightarrow> 'n \<Rightarrow> 'n"
  js_add :: "'n \<Rightarrow> 'n \<Rightarrow> 'n"

definition to_number :: "'n arith \<Rightarrow> json \<Rightarrow> 'n" where
  "to_number A v = (case v of JNum x \<Rightarrow> js_num A x | _ \<Rightarrow> js_coerce A v)"

text \<open>\<open>v?.k\<close>: \<open>undefined\<close> when \<open>v\<close> is \<open>null\<close> or \<open>undefined\<close>.\<close>

definition opt_chain :: "json option \<Rightarrow> string \<Rightarrow> json option" where
  "opt_chain v k =
     (case v of
        None \<Rightarrow> None
      | Some JNull \<Rightarrow> None
      | Some (JObj kvs) \<Rightarrow> map_of kvs k
      | Some _ \<Rightarrow> None)"

text \<open>
  \<open>portfolio?.balance?.balance != null ? portfolio.balance.balance / 100 : null\<close>;
  \<open>None\<close> is \<open>null\<close>.
\<close>

definition cash :: "'n arith \<Rightarrow> json \<Rightarrow> 'n option" where
  "cash A pf =
     (case opt_chain (opt_chain (Some pf) ''balance'') ''balance'' of
        None \<Rightarrow> None
      | Some JNull \<Rightarrow> None
      | Some b \<Rightarrow> Some (js_div A (to_number A b) (js_num A 100)))"

text \<open>\<open>portfolio?.positions || []\<close>\<close>

definition positions :: "json \<Rightarrow> json" where
  "positions pf =
     (case opt_chain (Some pf) ''positions'' of
        None \<Rightarrow> JArr []
      | Some v \<Rightarrow> if truthy (Some v) then v else JArr [])"

text \<open>\<open>(p.market_exposure || 0) / 100\<close>\<close>

definition exposure_dollars :: "'n arith \<Rightarrow> json \<Rightarrow> js_error + 'n" where
  "exposure_dollars A p =
     and_then (get_prop p ''market_exposure'') (\<lambda>e.
       Inr (js_div A
              (case e of
                 None \<Rightarrow> js_num A 0
               | Some v \<Rightarrow> if truthy (Some v) then to_number A v else js_num A 0)
              (js_num A 100)))"

text \<open>\<open>xs.reduce(f, init)\<close> on the elements of an array, from the first to the last.\<close>

fun reduce :: "('b \<Rightarrow> json \<Rightarrow> js_error + 'b) \<Rightarrow> 'b \<Rightarrow> json list \<Rightarrow> js_error + 'b" where
  "reduce f acc [] = Inr acc"
| "reduce f acc (x # xs) = and_then (f acc x) (\<lambda>acc'. reduce f acc' xs)"

text \<open>
  \<open>positions.reduce((sum, p) => sum + (p.market_exposure || 0) / 100, 0)\<close>; \<open>reduce\<close>
  is not a method of a value that is not an array.
\<close>

definition posValue :: "'n arith \<Rightarrow> json \<Rightarrow> js_error + 'n" where
  "posValue A pf =
     (case positions pf of
        JArr ps \<Rightarrow>
          reduce (\<lambda>sum p. and_then (exposure_dollars A p) (\<lambda>x. Inr (js_add A sum x)))
            (js_num A 0) ps
      | _ \<Rightarrow> Inl TypeError)"

text \<open>\<open>cash != null ? cash + posValue : null\<close>, after \<open>posValue\<close> has been computed.\<close>

definition totalValue :: "'n arith \<Rightarrow> json \<Rightarrow> js_error + 'n option" where
  "totalValue A pf =
     and_then (posValue A pf) (\<lambda>v.
       Inr (case cash A pf of None \<Rightarrow> None | Some c \<Rightarrow> Some (js_add A c v)))"


text \<open>
  \<open>SideIndicator\<close>: a dash for a missing, empty or \<open>unknown\<close> side, otherwise the side
  in upper case, green for \<open>yes\<close> and red for anything else. \<open>toUpperCase\<close> is modelled on
  ASCII letters; it is not a method of a value that is not a string.
\<close>

definition toUpperCase :: "string \<Rightarrow> string" where
  "toUpperCase s =
     map (\<lambda>c. let n = (of_char c :: nat) in if 97 \<le> n \<and> n \<le> 122 then char_of (n - 32) else c) s"

datatype side_view = Dash | SideText string string

definition SideIndicator :: "json option \<Rightarrow> js_error + side_view" where
  "SideIndicator side =
     (if truthy side \<and> side \<noteq> Some (JStr ''unknown'')
      then (case side of
              Some (JStr s) \<Rightarrow>
                Inr (SideText (toUpperCase s) (if s = ''yes'' then ''var(--green)'' else ''var(--red)''))
            | _ \<Rightarrow> Inl TypeError)
      else Inr Dash)"

text \<open>
  \<open>StrategyCard\<close>: the two handlers that change a strategy. \<open>strategy\<close> is the object
  of the strategies list (its properties), \<open>parse\<close> is \<open>JSON.parse\<close>. Each handler gives
  the new state of the card and whether \<open>onUpdate\<close> was called; \<open>err\<close> holds the error
  whose message is shown.
\<close>

record card_state =
  expanded :: bool
  editing :: bool
  configText :: string
  saving :: bool
  err :: "js_error option"

definition toggle_body :: "(string \<times> json) list \<Rightarrow> json" where
  "toggle_body strategy = JObj [(''enabled'', JBool (\<not> truthy (map_of strategy ''enabled'')))]"

definition toggle ::
  "(rat \<Rightarrow> string) \<Rightarrow> (request \<Rightarrow> js_error + response) \<Rightarrow> (string \<times> api_method) list
     \<Rightarrow> (string \<times> json) list \<Rightarrow> card_state \<Rightarrow> card_state \<times> bool"
where
  "toggle ns fetch obj strategy cs =
     (case and_then
             (call_api ns fetch obj ''updateStrategy''
                [map_of strategy ''id'', Some (toggle_body strategy)])
             (\<lambda>promise. promise) of
        Inl e \<Rightarrow> (cs\<lparr>err := Some e, saving := False\<rparr>, False)
      | Inr v \<Rightarrow> (cs\<lparr>saving := False\<rparr>, True))"

definition saveConfig_body :: "json \<Rightarrow> json" where
  "saveConfig_body parsed = JObj [(''config'', parsed)]"

definition saveConfig ::
  "(rat \<Rightarrow> string) \<Rightarrow> (request \<Rightarrow> js_error + response) \<Rightarrow> (string \<Rightarrow> js_error + json)
     \<Rightarrow> (string \<times> api_method) list \<Rightarrow> (string \<times> json) list \<Rightarrow> card_state \<Rightarrow> card_state \<times> bool"
where
  "saveConfig ns fetch parse obj strategy cs =
     (case and_then (parse (configText cs)) (\<lambda>parsed.
           and_then
             (call_api ns fetch obj ''updateStrategy''
                [map_of strategy ''id'', Some (saveConfig_body parsed)])
             (\<lambda>promise. promise)) of
        Inl e \<Rightarrow> (cs\<lparr>err := Some e, saving := False\<rparr>, False)
      | Inr v \<Rightarrow> (cs\<lparr>err := None, editing := False, saving := False\<rparr>, True))"

section \<open>The database schema\<close>

text \<open>
  The tables \<open>strategies\<close> and \<open>decisions\<close> with their constraints. A column value is an
  option, \<open>None\<close> being \<open>NULL\<close>, so that \<open>NOT NULL\<close> is a check of the model and not
  of its types. An \<open>INSERT\<close> leaves a column out (it takes its \<open>DEFAULT\<close>) or gives it a
  value, which may be \<open>NULL\<close>. No \<open>INSERT\<close> of the sources gives an \<open>id\<close>: it always
  comes from the table's sequence, which is taken as unbounded, and which a failed
  \<open>INSERT\<close> has consumed all the same. \<open>now\<close> is the value of \<open>NOW()\<close>.
\<close>

type_synonym timestamp = int

datatype sql_error =
    not_null_violation string              \<comment> \<open>the column\<close>
  | unique_violation string                \<comment> \<open>the constraint\<close>
  | check_violation string                 \<comment> \<open>the constraint\<close>
  | foreign_key_violation string           \<comment> \<open>the constraint\<close>
  | numeric_value_out_of_range string      \<comment> \<open>the column\<close>

datatype 'a col = Omitted | Given "'a option"

record strategy_row =
  s_id :: "int option"
  name :: "string option"
  description :: "string option"
  enabled :: "bool option"
  config :: "json option"
  created_at :: "timestamp option"
  updated_at :: "timestamp option"

record strategy_insert =
  i_name :: "string col"
  i_description :: "string col"
  i_enabled :: "bool col"
  i_config :: "json col"
  i_created_at :: "timestamp col"
  i_updated_at :: "timestamp col"

record decision_row =
  d_id :: "int option"
  d_strategy_id :: "int option"
  d_market_ticker :: "string option"
  d_side :: "string option"
  d_action :: "string option"
  d_reason :: "string option"
  d_contract_price :: "rat option"
  d_time_remaining_seconds :: "int option"
  d_portfolio_cash :: "rat option"
  d_position_size :: "rat option"
  d_contracts :: "int option"
  d_order_id :: "string option"
  d_params :: "json option"
  d_created_at :: "timestamp option"

record decision_insert =
  n_strategy_id :: "int col"
  n_market_ticker :: "string col"
  n_side :: "string col"
  n_action :: "string col"
  n_reason :: "string col"
  n_contract_price :: "rat col"
  n_time_remaining_seconds :: "int col"
  n_portfolio_cash :: "rat col"
  n_position_size :: "rat col"
  n_contracts :: "int col"
  n_order_id :: "string col"
  n_params :: "json col"
  n_created_at :: "timestamp col"

record db =
  strategy_rows :: "strategy_row list"
  strategies_id_seq :: int                \<comment> \<open>the last value the sequence gave out\<close>
  decision_rows :: "decision_row list"
  decisions_id_seq :: int

definition empty_db :: db where
  "empty_db = \<lparr>strategy_rows = [], strategies_id_seq = 0, decision_rows = [], decisions_id_seq = 0\<rparr>"

text \<open>The value an \<open>INSERT\<close> stores in a column: the given one, or the default.\<close>

definition col_value :: "'a col \<Rightarrow> 'a option \<Rightarrow> 'a option" where
  "col_value c d = (case c of Omitted \<Rightarrow> d | Given v \<Rightarrow> v)"

text \<open>The first error of a list of checks, in order.\<close>

fun first_error :: "(bool \<times> sql_error) list \<Rightarrow> sql_error option" where
  "first_error [] = None"
| "first_error ((violated, e) # cs) = (if violated then Some e else first_error cs)"

subsection \<open>\<open>strategies\<close>\<close>

definition new_strategy_row :: "timestamp \<Rightarrow> strategy_insert \<Rightarrow> int \<Rightarrow> strategy_row" where
  "new_strategy_row now ins i =
     \<lparr>s_id = Some i,
      name = col_value (i_name ins) None,
      description = col_value (i_description ins) None,
      enabled = col_value (i_enabled ins) (Some True),
      config = col_value (i_config ins) (Some (JObj [])),
      created_at = col_value (i_created_at ins) (Some now),
      updated_at = col_value (i_updated_at ins) (Some now)\<rparr>"

definition strategy_not_null :: "strategy_row \<Rightarrow> sql_error option" where
  "strategy_not_null r =
     first_error
       [(s_id r = None, not_null_violation ''id''),
        (name r = None, not_null_violation ''name''),
        (enabled r = None, not_null_violation ''enabled''),
        (config r = None, not_null_violation ''config''),
        (created_at r = None, not_null_violation ''created_at''),
        (updated_at r = None, not_null_violation ''updated_at'')]"

text \<open>\<open>name TEXT UNIQUE\<close>: a stored row already has the name.\<close>

definition name_conflict :: "strategy_row list \<Rightarrow> strategy_row \<Rightarrow> bool" where
  "name_conflict rows r = (name r \<noteq> None \<and> name r \<in> set (map name rows))"

definition strategy_unique :: "strategy_row list \<Rightarrow> strategy_row \<Rightarrow> sql_error option" where
  "strategy_unique rows r =
     first_error
       [(s_id r \<noteq> None \<and> s_id r \<in> set (map s_id rows), unique_violation ''strategies_pkey''),
        (name_conflict rows r, unique_violation ''strategies_name_key'')]"

text \<open>
  \<open>INSERT INTO strategies (...) VALUES (...)\<close>. The result is the error, or the number of
  rows inserted.
\<close>

definition insert_strategy :: "timestamp \<Rightarrow> strategy_insert \<Rightarrow> db \<Rightarrow> (sql_error + nat) \<times> db" where
  "insert_strategy now ins d =
     (let i = strategies_id_seq d + 1;
          d1 = d\<lparr>strategies_id_seq := i\<rparr>;
          r = new_strategy_row now ins i
      in case strategy_not_null r of
           Some e \<Rightarrow> (Inl e, d1)
         | None \<Rightarrow>
             (case strategy_unique (strategy_rows d1) r of
                Some e \<Rightarrow> (Inl e, d1)
              | None \<Rightarrow> (Inr 1, d1\<lparr>strategy_rows := strategy_rows d1 @ [r]\<rparr>)))"

text \<open>\<open>INSERT INTO strategies (...) VALUES (...) ON CONFLICT (name) DO NOTHING\<close>\<close>

definition insert_strategy_on_conflict_do_nothing ::
  "timestamp \<Rightarrow> strategy_insert \<Rightarrow> db \<Rightarrow> (sql_error + nat) \<times> db"
where
  "insert_strategy_on_conflict_do_nothing now ins d =
     (let i = strategies_id_seq d + 1;
          d1 = d\<lparr>strategies_id_seq := i\<rparr>;
          r = new_strategy_row now ins i
      in case strategy_not_null r of
           Some e \<Rightarrow> (Inl e, d1)
         | None \<Rightarrow>
             if name_conflict (strategy_rows d1) r then (Inr 0, d1)
             else (case strategy_unique (strategy_rows d1) r of
                     Some e \<Rightarrow> (Inl e, d1)
                   | None \<Rightarrow> (Inr 1, d1\<lparr>strategy_rows := strategy_rows d1 @ [r]\<rparr>)))"

text \<open>The seed row of the schema file.\<close>

definition seed_config :: json where
  "seed_config =
     JObj [(''market_series'', JStr ''KXBTC''),
           (''interval_minutes'', JNum 15),
           (''min_price_threshold'', JNum (90 / 100)),
           (''max_seconds_remaining'', JNum 60),
           (''position_pct'', JNum (5 / 100))]"

definition seed_insert :: strategy_insert where
  "seed_insert =
     \<lparr>i_name = Given (Some ''btc_15m_high_confidence''),
      i_description =
        Given (Some (''Buy BTC 15-minute contracts when < 1 min remaining and price ''
                       @ [CHR 0xE2, CHR 0x89, CHR 0xA5] @ '' 0.90'')),
      i_enabled = Given (Some True),
      i_config = Given (Some seed_config),
      i_created_at = Omitted,
      i_updated_at = Omitted\<rparr>"

definition seed :: "timestamp \<Rightarrow> db \<Rightarrow> (sql_error + nat) \<times> db" where
  "seed now d = insert_strategy_on_conflict_do_nothing now seed_insert d"


subsection \<open>\<open>decisions\<close>\<close>

text \<open>
  \<open>NUMERIC(p, s)\<close> rounds to \<open>s\<close> decimal places, half away from zero, and refuses a
  value that does not fit \<open>p\<close> digits; \<open>INTEGER\<close> holds 32 bits. A value that does not
  fit is refused before the statement runs, so the sequence is not consumed.
\<close>

definition round_half_away :: "rat \<Rightarrow> int" where
  "round_half_away x = (if 0 \<le> x then \<lfloor>x + 1 / 2\<rfloor> else - \<lfloor>- x + 1 / 2\<rfloor>)"

definition numeric_cast :: "nat \<Rightarrow> nat \<Rightarrow> rat option \<Rightarrow> rat option option" where
  "numeric_cast p s v =
     (case v of
        None \<Rightarrow> Some None
      | Some x \<Rightarrow>
          (let n = round_half_away (x * 10 ^ s)
           in if \<bar>n\<bar> < 10 ^ p then Some (Some (of_int n / 10 ^ s)) else None))"

definition int4_cast :: "int option \<Rightarrow> int option option" where
  "int4_cast v =
     (case v of
        None \<Rightarrow> Some None
      | Some x \<Rightarrow> if - 2147483648 \<le> x \<and> x \<le> 2147483647 then Some (Some x) else None)"

definition cast_or :: "string \<Rightarrow> 'a option option \<Rightarrow> sql_error + 'a option" where
  "cast_or column v = (case v of None \<Rightarrow> Inl (numeric_value_out_of_range column) | Some x \<Rightarrow> Inr x)"

definition new_decision_row :: "timestamp \<Rightarrow> decision_insert \<Rightarrow> int \<Rightarrow> sql_error + decision_row" where
  "new_decision_row now ins i =
     and_then (cast_or ''strategy_id'' (int4_cast (col_value (n_strategy_id ins) None))) (\<lambda>sid.
     and_then (cast_or ''contract_price'' (numeric_cast 10 4 (col_value (n_contract_price ins) None))) (\<lambda>cp.
     and_then (cast_or ''time_remaining_seconds''
                 (int4_cast (col_value (n_time_remaining_seconds ins) None))) (\<lambda>trs.
     and_then (cast_or ''portfolio_cash'' (numeric_cast 14 2 (col_value (n_portfolio_cash ins) None))) (\<lambda>pc.
     and_then (cast_or ''position_size'' (numeric_cast 14 2 (col_value (n_position_size ins) None))) (\<lambda>ps.
     and_then (cast_or ''contracts'' (int4_cast (col_value (n_contracts ins) None))) (\<lambda>cn.
       Inr \<lparr>d_id = Some i,
            d_strategy_id = sid,
            d_market_ticker = col_value (n_market_ticker ins) None,
            d_side = col_value (n_side ins) None,
            d_action = col_value (n_action ins) None,
            d_reason = col_value (n_reason ins) None,
            d_contract_price = cp,
            d_time_remaining_seconds = trs,
            d_portfolio_cash = pc,
            d_position_size = ps,
            d_contracts = cn,
            d_order_id = col_value (n_order_id ins) None,
            d_params = col_value (n_params ins) (Some (JObj [])),
            d_created_at = col_value (n_created_at ins) (Some now)\<rparr>))))))"

definition decision_not_null :: "decision_row \<Rightarrow> sql_error option" where
  "decision_not_null r =
     first_error
       [(d_id r = None, not_null_violation ''id''),
        (d_market_ticker r = None, not_null_violation ''market_ticker''),
        (d_side r = None, not_null_violation ''side''),
        (d_action r = None, not_null_violation ''action''),
        (d_params r = None, not_null_violation ''params''),
        (d_created_at r = None, not_null_violation ''created_at'')]"

text \<open>
  \<open>CHECK (c IN (...))\<close> is violated by a value outside the list, and not by \<open>NULL\<close>. The
  checks run after the \<open>NOT NULL\<close> ones, in the order of their names.
\<close>

definition check_in :: "string option \<Rightarrow> string list \<Rightarrow> bool" where
  "check_in v allowed = (case v of None \<Rightarrow> True | Some x \<Rightarrow> x \<in> set allowed)"

definition decision_check :: "decision_row \<Rightarrow> sql_error option" where
  "decision_check r =
     first_error
       [(\<not> check_in (d_action r) [''buy'', ''skip'', ''error''], check_violation ''decisions_action_check''),
        (\<not> check_in (d_side r) [''yes'', ''no''], check_violation ''decisions_side_check'')]"

text \<open>The primary key, then \<open>strategy_id REFERENCES strategies(id)\<close>.\<close>

definition decision_keys :: "db \<Rightarrow> decision_row \<Rightarrow> sql_error option" where
  "decision_keys d r =
     first_error
       [(d_id r \<noteq> None \<and> d_id r \<in> set (map d_id (decision_rows d)), unique_violation ''decisions_pkey''),
        (d_strategy_id r \<noteq> None \<and> d_strategy_id r \<notin> set (map s_id (strategy_rows d)),
         foreign_key_violation ''decisions_strategy_id_fkey'')]"

definition insert_decision :: "timestamp \<Rightarrow> decision_insert \<Rightarrow> db \<Rightarrow> (sql_error + nat) \<times> db" where
  "insert_decision now ins d =
     (let i = decisions_id_seq d + 1;
          d1 = d\<lparr>decisions_id_seq := i\<rparr>
      in case new_decision_row now ins i of
           Inl e \<Rightarrow> (Inl e, d)
         | Inr r \<Rightarrow>
             (case decision_not_null r of
                Some e \<Rightarrow> (Inl e, d1)
              | None \<Rightarrow>
                  (case decision_check r of
                     Some e \<Rightarrow> (Inl e, d1)
                   | None \<Rightarrow>
                       (case decision_keys d1 r of
                          Some e \<Rightarrow> (Inl e, d1)
                        | None \<Rightarrow> (Inr 1, d1\<lparr>decision_rows := decision_rows d1 @ [r]\<rparr>)))))"

subsection \<open>States of the database\<close>

text \<open>
  The empty tables, and what the statements above make of them. The seed is an insert of
  the second form.
\<close>

inductive reachable :: "db \<Rightarrow> bool" where
  init: "reachable empty_db"
| ins: "reachable d \<Longrightarrow> reachable (snd (insert_strategy now i d))"
| ins_do_nothing: "reachable d \<Longrightarrow> reachable (snd (insert_strategy_on_conflict_do_nothing now i d))"
| dec: "reachable d \<Longrightarrow> reachable (snd (insert_decision now j d))"

section \<open>The built-in strategy\<close>

text \<open>
  Modelled from the spec: the \<open>TradeSignal\<close> of a strategy evaluation, the observation of
  the open market (prices, seconds remaining), the typed configuration of the built-in rule
  and the error of the exchange. The strategy implementation is not among the sources.
\<close>

datatype action = BUY | SKIP | ERROR

datatype side = YES | NO

record TradeSignal =
  action :: action
  reason :: string
  side :: "side option"
  contractPrice :: "rat option"
  secondsRemaining :: "int option"
  portfolioCash :: "rat option"
  positionSize :: "rat option"
  contracts :: "int option"
  orderId :: "string option"

record market =
  m_ticker :: string
  yes_price :: rat
  no_price :: rat
  seconds_remaining :: int

record strategy_config =
  min_price_threshold :: rat
  max_seconds_remaining :: rat
  position_pct :: rat

datatype exchange_error = ExchangeError int string   \<comment> \<open>status, body\<close>

definition num_field :: "json \<Rightarrow> string \<Rightarrow> rat option" where
  "num_field j k =
     (case j of
        JObj kvs \<Rightarrow> (case map_of kvs k of Some (JNum x) \<Rightarrow> Some x | _ \<Rightarrow> None)
      | _ \<Rightarrow> None)"

text \<open>
  Modelled from the spec: the strategy's reading of its configuration document, which is
  part of the strategy implementation and not among the sources. The three keys are those
  of the seeded configuration and of the README; a document without one of them as a
  number is malformed.
\<close>

definition read_config :: "json \<Rightarrow> strategy_config option" where
  "read_config j =
     (case num_field j ''min_price_threshold'' of
        None \<Rightarrow> None
      | Some t \<Rightarrow>
          (case num_field j ''max_seconds_remaining'' of
             None \<Rightarrow> None
           | Some s \<Rightarrow>
               (case num_field j ''position_pct'' of
                  None \<Rightarrow> None
                | Some p \<Rightarrow>
                    Some \<lparr>min_price_threshold = t, max_seconds_remaining = s, position_pct = p\<rparr>)))"

definition plain_signal :: "action \<Rightarrow> string \<Rightarrow> TradeSignal" where
  "plain_signal a why =
     \<lparr>action = a, reason = why, side = None, contractPrice = None, secondsRemaining = None,
      portfolioCash = None, positionSize = None, contracts = None, orderId = None\<rparr>"

text \<open>
  Modelled from the spec: the order the rule places. Its side is the one whose price
  reaches the threshold, the yes side when both do (the spec does not say which then); its
  position size is the configured fraction of the cash; its count is the whole contracts
  that size buys at the price.
\<close>

definition order_side :: "strategy_config \<Rightarrow> market \<Rightarrow> side" where
  "order_side cfg m = (if min_price_threshold cfg \<le> yes_price m then YES else NO)"

definition order_price :: "strategy_config \<Rightarrow> market \<Rightarrow> rat" where
  "order_price cfg m = (case order_side cfg m of YES \<Rightarrow> yes_price m | NO \<Rightarrow> no_price m)"

definition position_size :: "strategy_config \<Rightarrow> rat \<Rightarrow> rat" where
  "position_size cfg available = position_pct cfg * available"

definition contract_count :: "strategy_config \<Rightarrow> market \<Rightarrow> rat \<Rightarrow> int" where
  "contract_count cfg m available = \<lfloor>position_size cfg available / order_price cfg m\<rfloor>"

text \<open>
  Modelled from the spec: the evaluation of the built-in strategy
  (\<open>btc_15m_high_confidence\<close>) once the open market is located, whose implementation is not
  among the sources. If the time remaining exceeds the ceiling, or both prices are below the
  threshold, the signal is \<open>skip\<close>; otherwise the position size is the configured fraction
  of the available cash, an order is placed, and the signal is \<open>buy\<close> with the full
  context, or \<open>error\<close> if the placement fails. A fault inside the evaluation (here a
  price of zero to divide by) is an \<open>error\<close> signal. The exchange is the parameter
  \<open>place\<close>. The README words the window as less than the ceiling; the two readings differ
  only at exactly the ceiling.
\<close>

definition evaluate_with ::
  "strategy_config \<Rightarrow> market \<Rightarrow> rat \<Rightarrow> (side \<Rightarrow> int \<Rightarrow> rat \<Rightarrow> exchange_error + string)
     \<Rightarrow> TradeSignal"
where
  "evaluate_with cfg m available place =
     (if max_seconds_remaining cfg < of_int (seconds_remaining m) then
        plain_signal SKIP ''time remaining exceeds the ceiling''
      else if yes_price m < min_price_threshold cfg \<and> no_price m < min_price_threshold cfg then
        plain_signal SKIP ''both prices below the threshold''
      else if order_price cfg m = 0 then
        plain_signal ERROR ''division by zero''
      else
        (case place (order_side cfg m) (contract_count cfg m available) (order_price cfg m) of
           Inl (ExchangeError status detail) \<Rightarrow> plain_signal ERROR detail
         | Inr oid \<Rightarrow>
             \<lparr>action = BUY, reason = ''order placed'',
              side = Some (order_side cfg m),
              contractPrice = Some (order_price cfg m),
              secondsRemaining = Some (seconds_remaining m),
              portfolioCash = Some available,
              positionSize = Some (position_size cfg available),
              contracts = Some (contract_count cfg m available),
              orderId = Some oid\<rparr>))"

text \<open>
  Modelled from the spec: the evaluation on the configuration document of the registry; a
  malformed configuration is a \<open>ConfigError\<close>, surfaced as an \<open>error\<close> signal.
\<close>

definition evaluate ::
  "json \<Rightarrow> market \<Rightarrow> rat \<Rightarrow> (side \<Rightarrow> int \<Rightarrow> rat \<Rightarrow> exchange_error + string) \<Rightarrow> TradeSignal"
where
  "evaluate document m available place =
     (case read_config document of
        None \<Rightarrow> plain_signal ERROR ''ConfigError''
      | Some cfg \<Rightarrow> evaluate_with cfg m available place)"


section \<open>Auxiliary notions of the properties\<close>

text \<open>What holds of every state of the \<open>strategies\<close> table: each row has its
  \<open>NOT NULL\<close> columns, its id is one the sequence gave out, and no two rows share a name.\<close>

definition row_ok :: "int \<Rightarrow> strategy_row \<Rightarrow> bool" where
  "row_ok seq r =
     ((case s_id r of None \<Rightarrow> False | Some i \<Rightarrow> i \<le> seq)
      \<and> name r \<noteq> None \<and> enabled r \<noteq> None \<and> config r \<noteq> None
      \<and> created_at r \<noteq> None \<and> updated_at r \<noteq> None)"

definition strategies_ok :: "db \<Rightarrow> bool" where
  "strategies_ok d =
     (list_all (row_ok (strategies_id_seq d)) (strategy_rows d)
      \<and> distinct (map name (strategy_rows d)))"

text \<open>
  Concrete inputs: an exchange that accepts every order, the market of the scenarios, a
  server that answers every request with the same response and one that is unreachable on
  one path, and statements for the tables.
\<close>

definition exchange_up :: "side \<Rightarrow> int \<Rightarrow> rat \<Rightarrow> exchange_error + string" where
  "exchange_up s n p = Inr ''order-1''"

definition scenario_market :: "rat \<Rightarrow> int \<Rightarrow> market" where
  "scenario_market price seconds =
     \<lparr>m_ticker = ''KXBTC-15M'', yes_price = price, no_price = 1 - price,
      seconds_remaining = seconds\<rparr>"

text \<open>The \<open>detail\<close> field of an error body, if the body is an object that has one.\<close>

definition detail_of :: "json \<Rightarrow> json option" where
  "detail_of j = (case j of JObj kvs \<Rightarrow> map_of kvs ''detail'' | _ \<Rightarrow> None)"

definition respond :: "response \<Rightarrow> request \<Rightarrow> js_error + response" where
  "respond r q = Inr r"

definition ns_any :: "rat \<Rightarrow> string" where
  "ns_any x = ''0''"

definition not_found_response :: response where
  "not_found_response =
     \<lparr>ok = False, statusText = ''Not Found'',
      json_result = Inr (JObj [(''detail'', JStr ''Strategy not found'')])\<rparr>"

definition bad_gateway_response :: response where
  "bad_gateway_response = \<lparr>ok = False, statusText = ''Bad Gateway'', json_result = Inl SyntaxError\<rparr>"

definition ok_response :: response where
  "ok_response = \<lparr>ok = True, statusText = ''OK'', json_result = Inr (JObj [(''buy'', JNum 2)])\<rparr>"

definition no_content_response :: response where
  "no_content_response = \<lparr>ok = True, statusText = ''No Content'', json_result = Inl SyntaxError\<rparr>"

definition empty_detail_response :: response where
  "empty_detail_response =
     \<lparr>ok = False, statusText = ''Bad Request'', json_result = Inr (JObj [(''detail'', JStr [])])\<rparr>"

definition minimal_insert :: strategy_insert where
  "minimal_insert =
     \<lparr>i_name = Given (Some ''my_strategy''), i_description = Omitted, i_enabled = Omitted,
      i_config = Omitted, i_created_at = Omitted, i_updated_at = Omitted\<rparr>"

definition duplicate_insert :: strategy_insert where
  "duplicate_insert =
     \<lparr>i_name = Given (Some ''btc_15m_high_confidence''), i_description = Given None,
      i_enabled = Given (Some False), i_config = Omitted, i_created_at = Omitted,
      i_updated_at = Omitted\<rparr>"





definition null_enabled_insert :: strategy_insert where
  "null_enabled_insert =
     \<lparr>i_name = Given (Some ''btc_15m_high_confidence''), i_description = Omitted,
      i_enabled = Given None, i_config = Omitted, i_created_at = Omitted,
      i_updated_at = Omitted\<rparr>"



text \<open>
  The exposure of a position in cents, as the portfolio response carries it: the number
  under \<open>market_exposure\<close>, and zero for a position that has no such number.
\<close>

definition has_exposure :: "json \<Rightarrow> rat \<Rightarrow> bool" where
  "has_exposure p e =
     (case p of
        JObj kvs \<Rightarrow>
          (case map_of kvs ''market_exposure'' of
             None \<Rightarrow> e = 0
           | Some JNull \<Rightarrow> e = 0
           | Some (JNum x) \<Rightarrow> e = x
           | Some _ \<Rightarrow> False)
      | _ \<Rightarrow> False)"

text \<open>
  An arithmetic that computes nothing: its numbers are the expressions themselves, so that
  a figure computed in it shows which operations were applied, and in which order.
\<close>

datatype expr = Num rat | Coerced json | Quot expr expr | Plus expr expr

definition symbolic :: "expr arith" where
  "symbolic = \<lparr>js_num = Num, js_coerce = Coerced, js_div = Quot, js_add = Plus\<rparr>"

definition sample_positions :: "json list" where
  "sample_positions =
     [JObj [(''ticker'', JStr ''KXBTC-A''), (''position'', JNum 3), (''market_exposure'', JNum 10)],
      JObj [(''ticker'', JStr ''KXBTC-B''), (''position'', JNum 0)],
      JObj [(''ticker'', JStr ''KXBTC-C''), (''position'', JNum 5), (''market_exposure'', JNum 20)]]"

definition sample_portfolio :: "(string \<times> json) list" where
  "sample_portfolio =
     [(''balance'', JObj [(''balance'', JNum 12800)]), (''positions'', JArr sample_positions)]"

definition no_balance_portfolio :: "(string \<times> json) list" where
  "no_balance_portfolio = [(''positions'', JArr sample_positions)]"


section \<open>Properties\<close>

subsection \<open>The invariant of the \<open>strategies\<close> table\<close>

lemma strategy_not_null_None:
  "strategy_not_null r = None \<longleftrightarrow>
     s_id r \<noteq> None \<and> name r \<noteq> None \<and> enabled r \<noteq> None \<and> config r \<noteq> None
     \<and> created_at r \<noteq> None \<and> updated_at r \<noteq> None"
  by (simp add: strategy_not_null_def)

lemma strategy_unique_None:
  "strategy_unique rows r = None \<longleftrightarrow>
     \<not> (s_id r \<noteq> None \<and> s_id r \<in> set (map s_id rows)) \<and> \<not> name_conflict rows r"
  by (simp add: strategy_unique_def)

lemma row_ok_mono: "row_ok a r \<Longrightarrow> a \<le> b \<Longrightarrow> row_ok b r"
  by (auto simp: row_ok_def split: option.splits)

lemma list_all_row_ok_mono: "list_all (row_ok a) rs \<Longrightarrow> a \<le> b \<Longrightarrow> list_all (row_ok b) rs"
  by (auto simp: list_all_iff intro: row_ok_mono)

lemma insert_strategy_ok:
  assumes "strategies_ok d"
  shows "strategies_ok (snd (insert_strategy now ins d))"
proof -
  let ?i = "strategies_id_seq d + 1"
  let ?r = "new_strategy_row now ins ?i"
  have mono: "list_all (row_ok ?i) (strategy_rows d)"
    using assms list_all_row_ok_mono[of "strategies_id_seq d" "strategy_rows d" ?i]
    by (simp add: strategies_ok_def)
  have dist: "distinct (map name (strategy_rows d))"
    using assms by (simp add: strategies_ok_def)
  show ?thesis
  proof (cases "strategy_not_null ?r")
    case (Some e)
    then show ?thesis using mono dist
      by (simp add: insert_strategy_def Let_def strategies_ok_def)
  next
    case None
    note nn = this
    show ?thesis
    proof (cases "strategy_unique (strategy_rows d) ?r")
      case (Some e)
      then show ?thesis using nn mono dist
        by (simp add: insert_strategy_def Let_def strategies_ok_def)
    next
      case None
      have rok: "row_ok ?i ?r"
        using nn by (simp add: strategy_not_null_None row_ok_def new_strategy_row_def)
      have fresh: "name ?r \<notin> set (map name (strategy_rows d))"
        using None nn by (auto simp: strategy_unique_None strategy_not_null_None name_conflict_def)
      show ?thesis using nn None mono dist rok fresh
        by (simp add: insert_strategy_def Let_def strategies_ok_def)
    qed
  qed
qed

lemma insert_strategy_on_conflict_ok:
  assumes "strategies_ok d"
  shows "strategies_ok (snd (insert_strategy_on_conflict_do_nothing now ins d))"
proof -
  let ?i = "strategies_id_seq d + 1"
  let ?r = "new_strategy_row now ins ?i"
  have mono: "list_all (row_ok ?i) (strategy_rows d)"
    using assms list_all_row_ok_mono[of "strategies_id_seq d" "strategy_rows d" ?i]
    by (simp add: strategies_ok_def)
  have dist: "distinct (map name (strategy_rows d))"
    using assms by (simp add: strategies_ok_def)
  show ?thesis
  proof (cases "strategy_not_null ?r")
    case (Some e)
    then show ?thesis using mono dist
      by (simp add: insert_strategy_on_conflict_do_nothing_def Let_def strategies_ok_def)
  next
    case None
    note nn = this
    show ?thesis
    proof (cases "name_conflict (strategy_rows d) ?r \<or> strategy_unique (strategy_rows d) ?r \<noteq> None")
      case True
      then show ?thesis using nn mono dist
        by (auto simp: insert_strategy_on_conflict_do_nothing_def Let_def strategies_ok_def)
    next
      case False
      have rok: "row_ok ?i ?r"
        using nn by (simp add: strategy_not_null_None row_ok_def new_strategy_row_def)
      have fresh: "name ?r \<notin> set (map name (strategy_rows d))"
        using False nn by (auto simp: strategy_not_null_None name_conflict_def)
      show ?thesis using nn False mono dist rok fresh
        by (auto simp: insert_strategy_on_conflict_do_nothing_def Let_def strategies_ok_def)
    qed
  qed
qed

lemma insert_decision_strategies:
  "strategy_rows (snd (insert_decision now j d)) = strategy_rows d
   \<and> strategies_id_seq (snd (insert_decision now j d)) = strategies_id_seq d"
  by (simp add: insert_decision_def Let_def split: sum.splits option.splits)

lemma insert_decision_ok:
  "strategies_ok d \<Longrightarrow> strategies_ok (snd (insert_decision now j d))"
  by (simp add: strategies_ok_def insert_decision_strategies)

lemma reachable_ok: "reachable d \<Longrightarrow> strategies_ok d"
proof (induction rule: reachable.induct)
  case init
  show ?case by (simp add: strategies_ok_def empty_db_def)
qed (simp_all add: insert_strategy_ok insert_strategy_on_conflict_ok insert_decision_ok)

lemma seeded_reachable: "reachable (snd (seed 0 empty_db))"
  unfolding seed_def by (rule reachable.ins_do_nothing[OF reachable.init])

lemma seeded_rows:
  "strategy_rows (snd (seed 0 empty_db)) = [new_strategy_row 0 seed_insert 1]"
  by (simp add: seed_def insert_strategy_on_conflict_do_nothing_def Let_def empty_db_def
      strategy_not_null_def strategy_unique_def name_conflict_def new_strategy_row_def
      seed_insert_def col_value_def)

lemma seeded_seq: "strategies_id_seq (snd (seed 0 empty_db)) = 1"
  by (simp add: seed_def insert_strategy_on_conflict_do_nothing_def Let_def empty_db_def
      strategy_not_null_def strategy_unique_def name_conflict_def new_strategy_row_def
      seed_insert_def col_value_def)

lemma seeded_db:
  "snd (seed 0 empty_db) =
     \<lparr>strategy_rows = [new_strategy_row 0 seed_insert 1], strategies_id_seq = 1,
      decision_rows = [], decisions_id_seq = 0\<rparr>"
  by (simp add: seed_def insert_strategy_on_conflict_do_nothing_def Let_def empty_db_def
      strategy_not_null_def strategy_unique_def name_conflict_def new_strategy_row_def
      seed_insert_def col_value_def)


subsection \<open>Duplicate names\<close>

lemma fresh_id:
  assumes "strategies_ok d"
  shows "Some (strategies_id_seq d + 1) \<notin> set (map s_id (strategy_rows d))"
proof
  assume "Some (strategies_id_seq d + 1) \<in> set (map s_id (strategy_rows d))"
  then obtain r where r: "r \<in> set (strategy_rows d)" "s_id r = Some (strategies_id_seq d + 1)"
    by auto
  from assms r(1) have "row_ok (strategies_id_seq d) r"
    by (simp add: strategies_ok_def list_all_iff)
  with r(2) show False by (simp add: row_ok_def)
qed

lemma duplicate_unique_violation:
  assumes ok: "strategies_ok d"
    and nm: "i_name ins = Given (Some n)"
    and dup: "Some n \<in> set (map name (strategy_rows d))"
  shows "name_conflict (strategy_rows d) (new_strategy_row now ins (strategies_id_seq d + 1))"
    and "strategy_unique (strategy_rows d) (new_strategy_row now ins (strategies_id_seq d + 1))
           = Some (unique_violation ''strategies_name_key'')"
proof -
  let ?i = "strategies_id_seq d + 1"
  let ?row = "new_strategy_row now ins ?i"
  have name: "name ?row = Some n"
    using nm by (simp add: new_strategy_row_def col_value_def)
  have id: "s_id ?row = Some ?i"
    by (simp add: new_strategy_row_def)
  show conflict: "name_conflict (strategy_rows d) ?row"
    using dup name by (simp add: name_conflict_def)
  show "strategy_unique (strategy_rows d) ?row = Some (unique_violation ''strategies_name_key'')"
    using conflict fresh_id[OF ok] id by (simp add: strategy_unique_def)
qed

lemma insert_duplicate:
  assumes ok: "strategies_ok d"
    and nm: "i_name ins = Given (Some n)"
    and dup: "Some n \<in> set (map name (strategy_rows d))"
  shows "\<exists>e. fst (insert_strategy now ins d) = Inl e"
    and "strategy_rows (snd (insert_strategy now ins d)) = strategy_rows d"
    and "strategy_not_null (new_strategy_row now ins (strategies_id_seq d + 1)) = None \<Longrightarrow>
           fst (insert_strategy now ins d) = Inl (unique_violation ''strategies_name_key'')"
    and "strategy_rows (snd (insert_strategy_on_conflict_do_nothing now ins d)) = strategy_rows d"
    and "strategy_not_null (new_strategy_row now ins (strategies_id_seq d + 1)) = None \<Longrightarrow>
           fst (insert_strategy_on_conflict_do_nothing now ins d) = Inr 0"
  using duplicate_unique_violation[OF ok nm dup, of now]
  by (auto simp: insert_strategy_def insert_strategy_on_conflict_do_nothing_def Let_def
      split: option.splits)

lemma given_not_null:
  assumes "i_name ins = Given (Some n)" "i_enabled ins \<noteq> Given None" "i_config ins \<noteq> Given None"
    "i_created_at ins \<noteq> Given None" "i_updated_at ins \<noteq> Given None"
  shows "strategy_not_null (new_strategy_row now ins i) = None"
  using assms
  by (auto simp: strategy_not_null_def new_strategy_row_def col_value_def split: col.splits)

lemma given_null:
  assumes "i_name ins = Given (Some n)"
    and "i_enabled ins = Given None \<or> i_config ins = Given None
         \<or> i_created_at ins = Given None \<or> i_updated_at ins = Given None"
  shows "\<exists>c. strategy_not_null (new_strategy_row now ins i) = Some (not_null_violation c)"
  using assms
  by (auto simp: strategy_not_null_def new_strategy_row_def col_value_def split: col.splits)

lemma null_given_insert:
  assumes "\<exists>c. strategy_not_null (new_strategy_row now ins (strategies_id_seq d + 1))
                  = Some (not_null_violation c)"
  shows "\<exists>c. fst (insert_strategy now ins d) = Inl (not_null_violation c)"
    and "\<exists>c. fst (insert_strategy_on_conflict_do_nothing now ins d) = Inl (not_null_violation c)"
  using assms
  by (auto simp: insert_strategy_def insert_strategy_on_conflict_do_nothing_def Let_def)

text \<open>
  C5, as amended. The registry's \<open>create\<close> is the \<open>INSERT\<close> into \<open>strategies\<close>, and
  its \<open>DuplicateName\<close> the violation of \<open>UNIQUE (name)\<close>. In every state of the
  database, an insert whose name a stored strategy already has fails and leaves the stored
  rows as they were. The failure is the unique violation on the name when the insert gives no
  \<open>NULL\<close> to a \<open>NOT NULL\<close> column, and a not-null violation when it gives one; the
  \<open>ON CONFLICT (name) DO NOTHING\<close> form of the seed inserts nothing and, in the first case,
  does not fail. And no two stored strategy records have the same name.
\<close>

theorem duplicate_name_rejected:
  assumes "reachable d"
  shows "(i_name ins = Given (Some n) \<and> Some n \<in> set (map name (strategy_rows d)) \<longrightarrow>
            (\<exists>e. fst (insert_strategy now ins d) = Inl e)
            \<and> strategy_rows (snd (insert_strategy now ins d)) = strategy_rows d
            \<and> (i_enabled ins \<noteq> Given None \<and> i_config ins \<noteq> Given None
                 \<and> i_created_at ins \<noteq> Given None \<and> i_updated_at ins \<noteq> Given None \<longrightarrow>
               fst (insert_strategy now ins d) = Inl (unique_violation ''strategies_name_key'')
               \<and> fst (insert_strategy_on_conflict_do_nothing now ins d) = Inr 0)
            \<and> (i_enabled ins = Given None \<or> i_config ins = Given None
                 \<or> i_created_at ins = Given None \<or> i_updated_at ins = Given None \<longrightarrow>
               (\<exists>c. fst (insert_strategy now ins d) = Inl (not_null_violation c))
               \<and> (\<exists>c. fst (insert_strategy_on_conflict_do_nothing now ins d)
                         = Inl (not_null_violation c)))
            \<and> strategy_rows (snd (insert_strategy_on_conflict_do_nothing now ins d))
                 = strategy_rows d)
         \<and> (\<forall>i < length (strategy_rows d). \<forall>j < length (strategy_rows d).
               i \<noteq> j \<longrightarrow> name (strategy_rows d ! i) \<noteq> name (strategy_rows d ! j))"
proof -
  have ok: "strategies_ok d" using assms by (rule reachable_ok)
  have "distinct (map name (strategy_rows d))" using ok by (simp add: strategies_ok_def)
  then have pairs: "\<forall>i < length (strategy_rows d). \<forall>j < length (strategy_rows d).
      i \<noteq> j \<longrightarrow> name (strategy_rows d ! i) \<noteq> name (strategy_rows d ! j)"
    by (auto simp: distinct_conv_nth)
  have dup: "i_name ins = Given (Some n) \<and> Some n \<in> set (map name (strategy_rows d)) \<longrightarrow>
            (\<exists>e. fst (insert_strategy now ins d) = Inl e)
            \<and> strategy_rows (snd (insert_strategy now ins d)) = strategy_rows d
            \<and> (i_enabled ins \<noteq> Given None \<and> i_config ins \<noteq> Given None
                 \<and> i_created_at ins \<noteq> Given None \<and> i_updated_at ins \<noteq> Given None \<longrightarrow>
               fst (insert_strategy now ins d) = Inl (unique_violation ''strategies_name_key'')
               \<and> fst (insert_strategy_on_conflict_do_nothing now ins d) = Inr 0)
            \<and> (i_enabled ins = Given None \<or> i_config ins = Given None
                 \<or> i_created_at ins = Given None \<or> i_updated_at ins = Given None \<longrightarrow>
               (\<exists>c. fst (insert_strategy now ins d) = Inl (not_null_violation c))
               \<and> (\<exists>c. fst (insert_strategy_on_conflict_do_nothing now ins d)
                         = Inl (not_null_violation c)))
            \<and> strategy_rows (snd (insert_strategy_on_conflict_do_nothing now ins d))
                 = strategy_rows d"
  proof (intro impI)
    assume a: "i_name ins = Given (Some n) \<and> Some n \<in> set (map name (strategy_rows d))"
    then have nm: "i_name ins = Given (Some n)"
      and st: "Some n \<in> set (map name (strategy_rows d))"
      by simp_all
    note facts = insert_duplicate[OF ok nm st, of now]
    have given: "i_enabled ins \<noteq> Given None \<and> i_config ins \<noteq> Given None
        \<and> i_created_at ins \<noteq> Given None \<and> i_updated_at ins \<noteq> Given None \<longrightarrow>
        strategy_not_null (new_strategy_row now ins (strategies_id_seq d + 1)) = None"
      using given_not_null[OF nm] by simp
    have null: "i_enabled ins = Given None \<or> i_config ins = Given None
        \<or> i_created_at ins = Given None \<or> i_updated_at ins = Given None \<longrightarrow>
        (\<exists>c. fst (insert_strategy now ins d) = Inl (not_null_violation c))
        \<and> (\<exists>c. fst (insert_strategy_on_conflict_do_nothing now ins d)
                  = Inl (not_null_violation c))"
      using null_given_insert[OF given_null[OF nm], of now d] by blast
    show "(\<exists>e. fst (insert_strategy now ins d) = Inl e)
            \<and> strategy_rows (snd (insert_strategy now ins d)) = strategy_rows d
            \<and> (i_enabled ins \<noteq> Given None \<and> i_config ins \<noteq> Given None
                 \<and> i_created_at ins \<noteq> Given None \<and> i_updated_at ins \<noteq> Given None \<longrightarrow>
               fst (insert_strategy now ins d) = Inl (unique_violation ''strategies_name_key'')
               \<and> fst (insert_strategy_on_conflict_do_nothing now ins d) = Inr 0)
            \<and> (i_enabled ins = Given None \<or> i_config ins = Given None
                 \<or> i_created_at ins = Given None \<or> i_updated_at ins = Given None \<longrightarrow>
               (\<exists>c. fst (insert_strategy now ins d) = Inl (not_null_violation c))
               \<and> (\<exists>c. fst (insert_strategy_on_conflict_do_nothing now ins d)
                         = Inl (not_null_violation c)))
            \<and> strategy_rows (snd (insert_strategy_on_conflict_do_nothing now ins d))
                 = strategy_rows d"
      using facts(1) facts(2) facts(3) facts(4) facts(5) given null by simp
  qed
  show ?thesis using dup pairs by (rule conjI)
qed

theorem duplicate_name_rejected_witness:
  "reachable (snd (seed 0 empty_db))
   \<and> i_name duplicate_insert = Given (Some ''btc_15m_high_confidence'')
   \<and> Some ''btc_15m_high_confidence'' \<in> set (map name (strategy_rows (snd (seed 0 empty_db))))
   \<and> fst (insert_strategy 5 duplicate_insert (snd (seed 0 empty_db)))
       = Inl (unique_violation ''strategies_name_key'')
   \<and> strategy_rows (snd (insert_strategy 5 duplicate_insert (snd (seed 0 empty_db))))
       = strategy_rows (snd (seed 0 empty_db))
   \<and> fst (seed 5 (snd (seed 0 empty_db))) = Inr 0
   \<and> strategy_rows (snd (seed 5 (snd (seed 0 empty_db)))) = strategy_rows (snd (seed 0 empty_db))"
proof -
  have n1: "i_name duplicate_insert = Given (Some ''btc_15m_high_confidence'')"
    by (simp add: duplicate_insert_def)
  have n2: "i_name seed_insert = Given (Some ''btc_15m_high_confidence'')"
    by (simp add: seed_insert_def)
  have stored: "Some ''btc_15m_high_confidence'' \<in> set (map name (strategy_rows (snd (seed 0 empty_db))))"
    by (simp add: seeded_rows new_strategy_row_def seed_insert_def col_value_def)
  have g1: "i_enabled duplicate_insert \<noteq> Given None \<and> i_config duplicate_insert \<noteq> Given None
      \<and> i_created_at duplicate_insert \<noteq> Given None \<and> i_updated_at duplicate_insert \<noteq> Given None"
    by (simp add: duplicate_insert_def)
  have g2: "i_enabled seed_insert \<noteq> Given None \<and> i_config seed_insert \<noteq> Given None
      \<and> i_created_at seed_insert \<noteq> Given None \<and> i_updated_at seed_insert \<noteq> Given None"
    by (simp add: seed_insert_def)
  show ?thesis
    using duplicate_name_rejected[OF seeded_reachable, of duplicate_insert "''btc_15m_high_confidence''" 5]
      duplicate_name_rejected[OF seeded_reachable, of seed_insert "''btc_15m_high_confidence''" 5]
      n1 n2 stored g1 g2 seeded_reachable
    unfolding seed_def[of 5] by simp
qed


text \<open>
  C5 as stated fails. The seeded name is stored; an insert of that name that gives \<open>NULL\<close>
  for \<open>enabled\<close> fails with the not-null violation, not with the violation of the unique
  name; and the seed statement, run again, inserts nothing and does not fail.
\<close>

theorem duplicate_name_counterexample:
  "Some ''btc_15m_high_confidence'' \<in> set (map name (strategy_rows (snd (seed 0 empty_db))))
   \<and> fst (insert_strategy 5 null_enabled_insert (snd (seed 0 empty_db)))
       = Inl (not_null_violation ''enabled'')
   \<and> fst (seed 5 (snd (seed 0 empty_db))) = Inr 0"
  apply (simp only: seeded_db)
  apply (simp add: insert_strategy_def seed_def
      insert_strategy_on_conflict_do_nothing_def Let_def null_enabled_insert_def
      strategy_not_null_def strategy_unique_def name_conflict_def new_strategy_row_def
      seed_insert_def col_value_def)
  done


subsection \<open>Defaults and \<open>NOT NULL\<close> columns of \<open>strategies\<close>\<close>

lemma insert_strategy_success:
  assumes "insert_strategy now ins d = (Inr k, d')"
  shows "k = 1 \<and> strategy_rows d' = strategy_rows d @ [new_strategy_row now ins (strategies_id_seq d + 1)]"
  using assms by (auto simp: insert_strategy_def Let_def split: option.splits)

text \<open>
  C8. An insert that leaves out the enabled flag and the configuration, and succeeds, stores
  a row with \<open>enabled = true\<close> and the empty configuration \<open>{}\<close>; and in every state of
  the database every stored strategy row has a name, an enabled flag, a configuration and
  both timestamps.
\<close>

theorem strategy_defaults_and_not_null:
  "(i_enabled ins = Omitted \<and> i_config ins = Omitted \<and> insert_strategy now ins d = (Inr k, d')
      \<longrightarrow> (\<exists>r. strategy_rows d' = strategy_rows d @ [r]
               \<and> enabled r = Some True \<and> config r = Some (JObj [])))
   \<and> (reachable d \<longrightarrow>
        (\<forall>r \<in> set (strategy_rows d).
           name r \<noteq> None \<and> enabled r \<noteq> None \<and> config r \<noteq> None
           \<and> created_at r \<noteq> None \<and> updated_at r \<noteq> None))"
proof (intro conjI impI)
  assume a: "i_enabled ins = Omitted \<and> i_config ins = Omitted \<and> insert_strategy now ins d = (Inr k, d')"
  let ?r = "new_strategy_row now ins (strategies_id_seq d + 1)"
  have "strategy_rows d' = strategy_rows d @ [?r]"
    using a insert_strategy_success by blast
  moreover have "enabled ?r = Some True \<and> config ?r = Some (JObj [])"
    using a by (simp add: new_strategy_row_def col_value_def)
  ultimately show "\<exists>r. strategy_rows d' = strategy_rows d @ [r]
               \<and> enabled r = Some True \<and> config r = Some (JObj [])"
    by blast
next
  assume "reachable d"
  then have "strategies_ok d" by (rule reachable_ok)
  then show "\<forall>r \<in> set (strategy_rows d).
           name r \<noteq> None \<and> enabled r \<noteq> None \<and> config r \<noteq> None
           \<and> created_at r \<noteq> None \<and> updated_at r \<noteq> None"
    by (auto simp: strategies_ok_def list_all_iff row_ok_def)
qed

lemma minimal_insert_result:
  "insert_strategy 7 minimal_insert empty_db =
     (Inr 1, snd (insert_strategy 7 minimal_insert empty_db))"
  by (simp add: insert_strategy_def Let_def empty_db_def minimal_insert_def
      strategy_not_null_def strategy_unique_def name_conflict_def new_strategy_row_def
      col_value_def)

theorem strategy_defaults_and_not_null_witness:
  "i_enabled minimal_insert = Omitted \<and> i_config minimal_insert = Omitted
   \<and> fst (insert_strategy 7 minimal_insert empty_db) = Inr 1
   \<and> (\<exists>r. strategy_rows (snd (insert_strategy 7 minimal_insert empty_db)) = [r]
          \<and> enabled r = Some True \<and> config r = Some (JObj []))
   \<and> reachable (snd (seed 0 empty_db))
   \<and> list_all (\<lambda>r. name r \<noteq> None \<and> enabled r \<noteq> None \<and> config r \<noteq> None
                   \<and> created_at r \<noteq> None \<and> updated_at r \<noteq> None)
        (strategy_rows (snd (seed 0 empty_db)))
   \<and> length (strategy_rows (snd (seed 0 empty_db))) = 1"
proof -
  have omitted: "i_enabled minimal_insert = Omitted \<and> i_config minimal_insert = Omitted"
    by (simp add: minimal_insert_def)
  have res: "fst (insert_strategy 7 minimal_insert empty_db) = Inr 1"
    using minimal_insert_result by (metis fst_conv)
  have empty: "strategy_rows empty_db = []"
    by (simp add: empty_db_def)
  have len: "length (strategy_rows (snd (seed 0 empty_db))) = 1"
    by (simp add: seeded_rows)
  show ?thesis
    using strategy_defaults_and_not_null[of minimal_insert 7 empty_db 1
        "snd (insert_strategy 7 minimal_insert empty_db)"]
      strategy_defaults_and_not_null[of seed_insert 0 "snd (seed 0 empty_db)" 1 empty_db]
      omitted res minimal_insert_result seeded_reachable empty len
    by (simp add: list_all_iff)
qed

subsection \<open>Decisions\<close>
















lemma SideIndicator_unknown:
  "SideIndicator (Some (JStr ''unknown'')) = Inr Dash"
  "SideIndicator None = Inr Dash"
  by (simp_all add: SideIndicator_def)

subsection \<open>Dashboard\<close>







lemma exposure_dollars_of:
  assumes "has_exposure p e"
  shows "exposure_dollars A p = Inr (js_div A (js_num A e) (js_num A 100))"
  using assms
  by (auto simp: has_exposure_def exposure_dollars_def and_then_def to_number_def
      split: json.splits option.splits)

lemma and_then_Inr: "and_then (Inr x) f = f x"
  by (simp add: and_then_def)

lemma reduce_exposures:
  assumes "list_all2 has_exposure ps es"
  shows "reduce (\<lambda>sum p. and_then (exposure_dollars A p) (\<lambda>x. Inr (js_add A sum x))) acc ps
           = Inr (foldl (js_add A) acc (map (\<lambda>e. js_div A (js_num A e) (js_num A 100)) es))"
  using assms
proof (induction ps es arbitrary: acc rule: list_all2_induct)
  case Nil
  show ?case by simp
next
  case (Cons p ps e es)
  show ?case
    by (simp add: exposure_dollars_of[OF Cons.hyps(1)] and_then_Inr Cons.IH)
qed

lemma cash_of_balance:
  assumes "map_of pf ''balance'' = Some (JObj bal)" "map_of bal ''balance'' = Some (JNum b)"
  shows "cash A (JObj pf) = Some (js_div A (js_num A b) (js_num A 100))"
  using assms by (simp add: cash_def opt_chain_def to_number_def)

lemma cash_unavailable:
  assumes "map_of pf ''balance'' = None \<or> map_of pf ''balance'' = Some JNull
     \<or> (map_of pf ''balance'' = Some (JObj bal)
          \<and> (map_of bal ''balance'' = None \<or> map_of bal ''balance'' = Some JNull))"
  shows "cash A (JObj pf) = None"
  using assms by (auto simp: cash_def opt_chain_def)

lemma posValue_of_positions:
  assumes "map_of pf ''positions'' = Some (JArr ps)" "list_all2 has_exposure ps es"
  shows "posValue A (JObj pf)
           = Inr (foldl (js_add A) (js_num A 0)
                    (map (\<lambda>e. js_div A (js_num A e) (js_num A 100)) es))"
  using assms(1) reduce_exposures[OF assms(2)]
  by (simp add: posValue_def positions_def opt_chain_def)

text \<open>
  C10. For a portfolio response whose balance is the number \<open>b\<close> and whose positions have
  the exposures \<open>es\<close> (zero for a position without one): the cash is \<open>b / 100\<close>; the
  positions value is the sum of the \<open>e / 100\<close>, added one after the other, from the first
  position to the last, to an initial zero; the total value is the cash plus the positions
  value. When the response has no balance, or a \<open>null\<close> one, the cash is \<open>null\<close> and so is
  the total value. Before the first response the cash and the total value are \<open>null\<close> and
  the positions value is zero. The division and the addition are those of the doubles,
  whatever they give.
\<close>

theorem portfolio_figures:
  "(map_of pf ''balance'' = Some (JObj bal) \<and> map_of bal ''balance'' = Some (JNum b) \<longrightarrow>
      cash A (JObj pf) = Some (js_div A (js_num A b) (js_num A 100)))
   \<and> (map_of pf ''positions'' = Some (JArr ps) \<and> list_all2 has_exposure ps es \<longrightarrow>
        posValue A (JObj pf)
          = Inr (foldl (js_add A) (js_num A 0)
                   (map (\<lambda>e. js_div A (js_num A e) (js_num A 100)) es)))
   \<and> (map_of pf ''balance'' = Some (JObj bal) \<and> map_of bal ''balance'' = Some (JNum b)
        \<and> map_of pf ''positions'' = Some (JArr ps) \<and> list_all2 has_exposure ps es \<longrightarrow>
        totalValue A (JObj pf)
          = Inr (Some (js_add A (js_div A (js_num A b) (js_num A 100))
                         (foldl (js_add A) (js_num A 0)
                            (map (\<lambda>e. js_div A (js_num A e) (js_num A 100)) es)))))
   \<and> ((map_of pf ''balance'' = None \<or> map_of pf ''balance'' = Some JNull
         \<or> (map_of pf ''balance'' = Some (JObj bal)
              \<and> (map_of bal ''balance'' = None \<or> map_of bal ''balance'' = Some JNull)))
        \<and> map_of pf ''positions'' = Some (JArr ps) \<and> list_all2 has_exposure ps es \<longrightarrow>
        cash A (JObj pf) = None \<and> totalValue A (JObj pf) = Inr None)
   \<and> cash A JNull = None \<and> posValue A JNull = Inr (js_num A 0) \<and> totalValue A JNull = Inr None"
proof (intro conjI impI)
  assume a: "map_of pf ''balance'' = Some (JObj bal) \<and> map_of bal ''balance'' = Some (JNum b)"
  then show "cash A (JObj pf) = Some (js_div A (js_num A b) (js_num A 100))"
    using cash_of_balance by blast
next
  assume a: "map_of pf ''positions'' = Some (JArr ps) \<and> list_all2 has_exposure ps es"
  then show "posValue A (JObj pf)
          = Inr (foldl (js_add A) (js_num A 0)
                   (map (\<lambda>e. js_div A (js_num A e) (js_num A 100)) es))"
    using posValue_of_positions by blast
next
  assume a: "map_of pf ''balance'' = Some (JObj bal) \<and> map_of bal ''balance'' = Some (JNum b)
        \<and> map_of pf ''positions'' = Some (JArr ps) \<and> list_all2 has_exposure ps es"
  then have c: "cash A (JObj pf) = Some (js_div A (js_num A b) (js_num A 100))"
    using cash_of_balance by blast
  from a have v: "posValue A (JObj pf)
          = Inr (foldl (js_add A) (js_num A 0)
                   (map (\<lambda>e. js_div A (js_num A e) (js_num A 100)) es))"
    using posValue_of_positions by blast
  show "totalValue A (JObj pf)
          = Inr (Some (js_add A (js_div A (js_num A b) (js_num A 100))
                         (foldl (js_add A) (js_num A 0)
                            (map (\<lambda>e. js_div A (js_num A e) (js_num A 100)) es))))"
    by (simp add: totalValue_def c v and_then_def)
next
  assume a: "(map_of pf ''balance'' = None \<or> map_of pf ''balance'' = Some JNull
         \<or> (map_of pf ''balance'' = Some (JObj bal)
              \<and> (map_of bal ''balance'' = None \<or> map_of bal ''balance'' = Some JNull)))
        \<and> map_of pf ''positions'' = Some (JArr ps) \<and> list_all2 has_exposure ps es"
  then show c: "cash A (JObj pf) = None"
    using cash_unavailable[of pf bal A] by blast
  from a have v: "posValue A (JObj pf)
          = Inr (foldl (js_add A) (js_num A 0)
                   (map (\<lambda>e. js_div A (js_num A e) (js_num A 100)) es))"
    using posValue_of_positions by blast
  show "totalValue A (JObj pf) = Inr None"
    by (simp add: totalValue_def c v and_then_def)
next
  show "cash A JNull = None"
    by (simp add: cash_def opt_chain_def)
  show v: "posValue A JNull = Inr (js_num A 0)"
    by (simp add: posValue_def positions_def opt_chain_def)
  show "totalValue A JNull = Inr None"
    by (simp add: totalValue_def v and_then_def cash_def opt_chain_def)
qed

lemma sample_exposures: "list_all2 has_exposure sample_positions [10, 0, 20]"
  by (simp add: sample_positions_def has_exposure_def)

theorem portfolio_figures_witness:
  "map_of sample_portfolio ''balance'' = Some (JObj [(''balance'', JNum 12800)])
   \<and> map_of sample_portfolio ''positions'' = Some (JArr sample_positions)
   \<and> list_all2 has_exposure sample_positions [10, 0, 20]
   \<and> cash symbolic (JObj sample_portfolio) = Some (Quot (Num 12800) (Num 100))
   \<and> posValue symbolic (JObj sample_portfolio)
       = Inr (Plus (Plus (Plus (Num 0) (Quot (Num 10) (Num 100))) (Quot (Num 0) (Num 100)))
                (Quot (Num 20) (Num 100)))
   \<and> totalValue symbolic (JObj sample_portfolio)
       = Inr (Some (Plus (Quot (Num 12800) (Num 100))
                      (Plus (Plus (Plus (Num 0) (Quot (Num 10) (Num 100))) (Quot (Num 0) (Num 100)))
                         (Quot (Num 20) (Num 100)))))
   \<and> map_of no_balance_portfolio ''balance'' = None
   \<and> cash symbolic (JObj no_balance_portfolio) = None
   \<and> totalValue symbolic (JObj no_balance_portfolio) = Inr None"
proof -
  have b: "map_of sample_portfolio ''balance'' = Some (JObj [(''balance'', JNum 12800)])"
    "map_of sample_portfolio ''positions'' = Some (JArr sample_positions)"
    "map_of [(''balance'', JNum 12800)] ''balance'' = Some (JNum 12800)"
    by (simp_all add: sample_portfolio_def)
  have n: "map_of no_balance_portfolio ''balance'' = None"
    "map_of no_balance_portfolio ''positions'' = Some (JArr sample_positions)"
    by (simp_all add: no_balance_portfolio_def)
  show ?thesis
    using portfolio_figures[where pf = sample_portfolio and bal = "[(''balance'', JNum 12800)]"
        and b = 12800 and ps = sample_positions and es = "[10, 0, 20]" and A = symbolic]
      portfolio_figures[where pf = no_balance_portfolio and bal = "[]" and b = 0
        and ps = sample_positions and es = "[10, 0, 20]" and A = symbolic]
      b n sample_exposures
    by (simp add: symbolic_def)
qed

subsection \<open>The API client\<close>

lemma req_not_ok_throws:
  assumes "fetch (mk_request path os) = Inr r" "\<not> ok r"
  shows "\<exists>e. req ns fetch path os = Inl e"
  using assms
  by (cases "json_result r"; cases "get_prop (projr (json_result r)) ''detail''")
     (auto simp: req_def Let_def split: sum.splits option.splits)

lemma req_not_ok_message:
  assumes "fetch (mk_request path os) = Inr r" "\<not> ok r" "json_result r = Inr j" "j \<noteq> JNull"
  shows "req ns fetch path os =
           Inl (Error (case detail_of j of
                         None \<Rightarrow> statusText r
                       | Some v \<Rightarrow> if truthy (Some v) then ToString ns v else statusText r))"
  using assms by (cases j) (simp_all add: req_def detail_of_def split: option.splits)

lemma req_not_ok_unparsed:
  assumes "fetch (mk_request path os) = Inr r" "\<not> ok r" "json_result r = Inl e"
  shows "req ns fetch path os = Inl (Error (statusText r))"
  using assms by (simp add: req_def)

lemma req_ok:
  assumes "fetch (mk_request path os) = Inr r" "ok r"
  shows "req ns fetch path os = json_result r"
  using assms by (simp add: req_def)

text \<open>
  C9, as amended. For a response that \<open>fetch\<close> delivers: if its status is not ok, \<open>req\<close>
  throws and never returns a value; the error's message is the \<open>detail\<close> of the body when
  the body is an object whose \<open>detail\<close> is a non-empty string, and the status text when the
  body does not parse, or parses to a value other than \<open>null\<close> that has no \<open>detail\<close> or
  a falsy one. If the status is ok, \<open>req\<close> settles as \<open>r.json()\<close> does: it returns the
  parsed body, or rejects when the body does not parse.
\<close>

theorem req_outcome:
  assumes "fetch (mk_request path os) = Inr r"
  shows "(\<not> ok r \<longrightarrow> (\<exists>e. req ns fetch path os = Inl e))
   \<and> (\<not> ok r \<and> json_result r = Inr j \<and> detail_of j = Some (JStr s) \<and> s \<noteq> [] \<longrightarrow>
        req ns fetch path os = Inl (Error s))
   \<and> (\<not> ok r \<and> json_result r = Inr j \<and> j \<noteq> JNull \<and> \<not> truthy (detail_of j) \<longrightarrow>
        req ns fetch path os = Inl (Error (statusText r)))
   \<and> (\<not> ok r \<and> json_result r = Inl e \<longrightarrow> req ns fetch path os = Inl (Error (statusText r)))
   \<and> (ok r \<and> json_result r = Inr j \<longrightarrow> req ns fetch path os = Inr j)
   \<and> (ok r \<and> json_result r = Inl e \<longrightarrow> req ns fetch path os = Inl e)"
proof (intro conjI impI)
  assume "\<not> ok r"
  then show "\<exists>e. req ns fetch path os = Inl e"
    using assms req_not_ok_throws by blast
next
  assume a: "\<not> ok r \<and> json_result r = Inr j \<and> detail_of j = Some (JStr s) \<and> s \<noteq> []"
  then have "j \<noteq> JNull"
    by (auto simp: detail_of_def)
  with a show "req ns fetch path os = Inl (Error s)"
    using assms req_not_ok_message[of fetch path os r j ns] by simp
next
  assume a: "\<not> ok r \<and> json_result r = Inr j \<and> j \<noteq> JNull \<and> \<not> truthy (detail_of j)"
  then show "req ns fetch path os = Inl (Error (statusText r))"
    using assms req_not_ok_message[of fetch path os r j ns]
    by (simp split: option.splits)
next
  assume "\<not> ok r \<and> json_result r = Inl e"
  then show "req ns fetch path os = Inl (Error (statusText r))"
    using assms req_not_ok_unparsed by blast
next
  assume "ok r \<and> json_result r = Inr j"
  then show "req ns fetch path os = Inr j"
    using assms req_ok[of fetch path os r ns] by simp
next
  assume "ok r \<and> json_result r = Inl e"
  then show "req ns fetch path os = Inl e"
    using assms req_ok[of fetch path os r ns] by simp
qed

theorem req_outcome_witness:
  "req ns_any (respond not_found_response) ''/strategies/7'' no_opts = Inl (Error ''Strategy not found'')
   \<and> req ns_any (respond bad_gateway_response) ''/portfolio'' no_opts = Inl (Error ''Bad Gateway'')
   \<and> req ns_any (respond ok_response) ''/decisions/stats'' no_opts = Inr (JObj [(''buy'', JNum 2)])"
  using req_outcome[where fetch = "respond not_found_response" and path = "''/strategies/7''"
      and os = no_opts and r = not_found_response and ns = ns_any
      and j = "JObj [(''detail'', JStr ''Strategy not found'')]" and s = "''Strategy not found''"]
    req_outcome[where fetch = "respond bad_gateway_response" and path = "''/portfolio''"
      and os = no_opts and r = bad_gateway_response and ns = ns_any and e = SyntaxError]
    req_outcome[where fetch = "respond ok_response" and path = "''/decisions/stats''"
      and os = no_opts and r = ok_response and ns = ns_any and j = "JObj [(''buy'', JNum 2)]"]
  by (simp add: respond_def not_found_response_def bad_gateway_response_def ok_response_def
      detail_of_def)

text \<open>
  C9 as stated fails: an ok response without a JSON body (204 No Content) makes \<open>req\<close>
  reject instead of returning, and an error body whose \<open>detail\<close> is the empty string gives
  the status text as the message, not the detail.
\<close>

theorem req_counterexample:
  "req ns_any (respond no_content_response) ''/strategies/7'' no_opts = Inl SyntaxError
   \<and> req ns_any (respond empty_detail_response) ''/strategies'' no_opts = Inl (Error ''Bad Request'')"
  by (simp add: req_def respond_def no_content_response_def empty_detail_response_def)

subsection \<open>The built-in strategy\<close>

lemma read_seed_config:
  "read_config seed_config =
     Some \<lparr>min_price_threshold = 9 / 10, max_seconds_remaining = 60, position_pct = 1 / 20\<rparr>"
  by (simp add: read_config_def num_field_def seed_config_def)

text \<open>
  C2. Whenever the time remaining exceeds the configured ceiling, the signal is \<open>skip\<close>,
  whatever the prices, the cash and the exchange.
\<close>

theorem evaluate_skip_over_ceiling:
  assumes "read_config document = Some cfg"
    and "max_seconds_remaining cfg < of_int (seconds_remaining m)"
  shows "action (evaluate document m available place) = SKIP"
  using assms by (simp add: evaluate_def evaluate_with_def plain_signal_def)

theorem evaluate_skip_over_ceiling_witness:
  "read_config seed_config
     = Some \<lparr>min_price_threshold = 9 / 10, max_seconds_remaining = 60, position_pct = 1 / 20\<rparr>
   \<and> action (evaluate seed_config (scenario_market (95 / 100) 120) 1000 exchange_up) = SKIP"
  using evaluate_skip_over_ceiling[OF read_seed_config, of "scenario_market (95 / 100) 120" 1000 exchange_up]
    read_seed_config
  by (simp add: scenario_market_def)

lemma scenario_count: "\<lfloor>(1 / 20 * 1000) / (92 / 100 :: rat)\<rfloor> = 54"
  by (simp add: floor_eq_iff)

text \<open>
  C1. Under the seeded configuration, with 45 seconds remaining, a yes price of 0.92 and
  $1000 of cash, the strategy places an order of 54 yes contracts at 0.92; the exchange
  having accepted that order, the signal is \<open>buy\<close> on the yes side with a position size of
  $50, whatever the ticker and the no price.
\<close>

theorem evaluate_scenario_buy:
  assumes "place YES 54 (92 / 100) = Inr oid"
  shows "action (evaluate seed_config
                   \<lparr>m_ticker = t, yes_price = 92 / 100, no_price = np, seconds_remaining = 45\<rparr>
                   1000 place) = BUY
   \<and> side (evaluate seed_config
             \<lparr>m_ticker = t, yes_price = 92 / 100, no_price = np, seconds_remaining = 45\<rparr>
             1000 place) = Some YES
   \<and> positionSize (evaluate seed_config
             \<lparr>m_ticker = t, yes_price = 92 / 100, no_price = np, seconds_remaining = 45\<rparr>
             1000 place) = Some 50"
  using assms scenario_count
  by (simp add: evaluate_def read_seed_config evaluate_with_def order_side_def order_price_def
      contract_count_def position_size_def)

theorem evaluate_scenario_buy_witness:
  "exchange_up YES 54 (92 / 100) = Inr ''order-1''
   \<and> action (evaluate seed_config (scenario_market (92 / 100) 45) 1000 exchange_up) = BUY
   \<and> side (evaluate seed_config (scenario_market (92 / 100) 45) 1000 exchange_up) = Some YES
   \<and> positionSize (evaluate seed_config (scenario_market (92 / 100) 45) 1000 exchange_up) = Some 50"
proof -
  have accepts: "exchange_up YES 54 (92 / 100) = Inr ''order-1''"
    by (simp add: exchange_up_def)
  show ?thesis
    using evaluate_scenario_buy[where place = exchange_up and oid = "''order-1''"
        and t = "''KXBTC-15M''" and np = "1 - 92 / 100"] accepts
    by (simp add: scenario_market_def)
qed

end
